theory Spec2Isabelle
  imports Complex_Main
begin

section \<open>Vectors and 3x3 matrices\<close>

text \<open>
  The notebook computes with numpy arrays of shape (3,) and (3,3) and with scipy
  \<open>Rotation\<close> objects. A vector is a triple, a matrix is the triple of its rows, and a
  \<open>Rotation\<close> is represented by its rotation matrix (\<open>as_matrix\<close> and \<open>from_matrix\<close>
  are then the identity on rotation matrices). Floating-point numbers are idealised as
  real numbers: every equation below is an equation of exact arithmetic, and nothing is
  said about the last bits of a double-precision result.
\<close>

type_synonym vec3 = "real \<times> real \<times> real"

type_synonym mat3 = "vec3 \<times> vec3 \<times> vec3"

fun dot :: "vec3 \<Rightarrow> vec3 \<Rightarrow> real" where
  "dot (a1, a2, a3) (b1, b2, b3) = a1 * b1 + a2 * b2 + a3 * b3"

fun cross :: "vec3 \<Rightarrow> vec3 \<Rightarrow> vec3" where
  "cross (a1, a2, a3) (b1, b2, b3) =
     (a2 * b3 - a3 * b2, a3 * b1 - a1 * b3, a1 * b2 - a2 * b1)"

fun scale :: "real \<Rightarrow> vec3 \<Rightarrow> vec3" where
  "scale k (a1, a2, a3) = (k * a1, k * a2, k * a3)"

definition norm3 :: "vec3 \<Rightarrow> real" where
  "norm3 v = sqrt (dot v v)"

definition unit_vector :: "vec3 \<Rightarrow> vec3" where
  "unit_vector v = scale (1 / norm3 v) v"

fun col :: "mat3 \<Rightarrow> nat \<Rightarrow> vec3" where
  "col ((a11, a12, a13), (a21, a22, a23), (a31, a32, a33)) j =
     (if j = 0 then (a11, a21, a31) else if j = 1 then (a12, a22, a32) else (a13, a23, a33))"

fun transpose3 :: "mat3 \<Rightarrow> mat3" where
  "transpose3 ((a11, a12, a13), (a21, a22, a23), (a31, a32, a33)) =
     ((a11, a21, a31), (a12, a22, a32), (a13, a23, a33))"

text \<open>The matrix-vector product: the rotation applied to a vector.\<close>

fun mat_vec :: "mat3 \<Rightarrow> vec3 \<Rightarrow> vec3" where
  "mat_vec (r1, r2, r3) v = (dot r1 v, dot r2 v, dot r3 v)"

text \<open>
  The matrix product. For scipy rotations \<open>p * q\<close> is the rotation with matrix
  \<open>p.as_matrix() @ q.as_matrix()\<close>.
\<close>

fun mat_mul :: "mat3 \<Rightarrow> mat3 \<Rightarrow> mat3" where
  "mat_mul (r1, r2, r3) B =
     (let c1 = col B 0; c2 = col B 1; c3 = col B 2 in
      ((dot r1 c1, dot r1 c2, dot r1 c3),
       (dot r2 c1, dot r2 c2, dot r2 c3),
       (dot r3 c1, dot r3 c2, dot r3 c3)))"

fun det3 :: "mat3 \<Rightarrow> real" where
  "det3 (r1, r2, r3) = dot r1 (cross r2 r3)"

text \<open>\<open>np.eye(3)\<close>, \<open>np.ones((3,))\<close> and \<open>np.diag\<close>.\<close>

definition eye3 :: mat3 where
  "eye3 = ((1, 0, 0), (0, 1, 0), (0, 0, 1))"

definition ones3 :: vec3 where
  "ones3 = (1, 1, 1)"

fun diag3 :: "vec3 \<Rightarrow> mat3" where
  "diag3 (z1, z2, z3) = ((z1, 0, 0), (0, z2, 0), (0, 0, z3))"

text \<open>A rotation matrix is orthogonal with determinant 1.\<close>

definition is_rotation :: "mat3 \<Rightarrow> bool" where
  "is_rotation A \<longleftrightarrow> mat_mul (transpose3 A) A = eye3 \<and> det3 A = 1"

section \<open>Errors\<close>

text \<open>
  \<open>InvalidInput\<close> is the invalid-input error of the alignment step (a Python
  \<open>ValueError\<close>); \<open>AttributeError\<close> is what Python raises for \<open>None.to_html\<close>.
\<close>

datatype error = InvalidInput | AttributeError

section \<open>The alignment of the principal axis\<close>

text \<open>
  Modelled from the spec: \<open>R.align_vectors\<close> is a function of the scipy library and not
  part of the notebook. The spec (section 4.2, step 1 and its error conditions) describes
  it as the minimal rotation that maps the second vector onto the first, with a fixed
  half turn about a perpendicular axis when the two are anti-parallel, and as failing
  with an invalid-input error when either vector is zero. As in scipy,
  \<open>align_vectors a b\<close> rotates \<open>b\<close> onto \<open>a\<close>, and both vectors are scaled to unit
  length first. The spec leaves the axis of the half turn open; \<open>perpendicular\<close> is one
  deterministic choice of a unit vector orthogonal to its argument.
\<close>

definition perpendicular :: "vec3 \<Rightarrow> vec3" where
  "perpendicular u =
     (case u of (u1, u2, u3) \<Rightarrow>
        if u1 = 0 \<and> u2 = 0 then (1, 0, 0) else unit_vector (u2, - u1, 0))"

definition half_turn :: "vec3 \<Rightarrow> mat3" where
  "half_turn p =
     (case p of (p1, p2, p3) \<Rightarrow>
        ((2 * p1 * p1 - 1, 2 * p1 * p2, 2 * p1 * p3),
         (2 * p2 * p1, 2 * p2 * p2 - 1, 2 * p2 * p3),
         (2 * p3 * p1, 2 * p3 * p2, 2 * p3 * p3 - 1)))"

definition minimal_rotation :: "vec3 \<Rightarrow> vec3 \<Rightarrow> mat3" where
  "minimal_rotation u v =
     (let c = dot u v; k = 1 / (1 + c) in
      case cross u v of (w1, w2, w3) \<Rightarrow>
        ((c + k * w1 * w1, k * w1 * w2 - w3, k * w1 * w3 + w2),
         (k * w2 * w1 + w3, c + k * w2 * w2, k * w2 * w3 - w1),
         (k * w3 * w1 - w2, k * w3 * w2 + w1, c + k * w3 * w3)))"

definition align_vectors :: "vec3 \<Rightarrow> vec3 \<Rightarrow> error + mat3" where
  "align_vectors a b =
     (if a = (0, 0, 0) \<or> b = (0, 0, 0) then Inl InvalidInput
      else
        let v = unit_vector a; u = unit_vector b in
        if v = scale (- 1) u then Inr (half_turn (perpendicular u))
        else Inr (minimal_rotation u v))"

section \<open>The allocentric-to-egocentric conversion\<close>

text \<open>
  The body of the allocentric loop:
  \<^verbatim>\<open>
    R_pa_align, _ = R.align_vectors(look_at.reshape(-1, 3), principal_axis)
    R_egocentric = R_pa_align * R_allocentric
  \<close>
  The alignment routine is a parameter, so that what is proved about the composition
  holds for every implementation of it. An exception raised by the alignment leaves the
  loop body, so no egocentric rotation is computed.
\<close>

definition principal_axis :: vec3 where
  "principal_axis = (0, 0, 1)"

definition R_egocentric ::
  "(vec3 \<Rightarrow> vec3 \<Rightarrow> error + mat3) \<Rightarrow> vec3 \<Rightarrow> vec3 \<Rightarrow> mat3 \<Rightarrow> error + mat3" where
  "R_egocentric align look_at pa R_allocentric =
     (case align look_at pa of
        Inl e \<Rightarrow> Inl e
      | Inr R_pa_align \<Rightarrow> Inr (mat_mul R_pa_align R_allocentric))"

text \<open>
  Modelled from the spec: the decomposition of an egocentric rotation "back via the
  inverse alignment rotation" (section 8) is not computed anywhere in the notebook. The
  inverse of a rotation is its transpose, and the decomposition composes it with the
  egocentric rotation from the left.
\<close>

definition inv_rotation :: "mat3 \<Rightarrow> mat3" where
  "inv_rotation A = transpose3 A"

definition recover_allocentric :: "mat3 \<Rightarrow> mat3 \<Rightarrow> mat3" where
  "recover_allocentric R_pa_align R_ego = mat_mul (inv_rotation R_pa_align) R_ego"

section \<open>Transforms and boxes\<close>

text \<open>
  Modelled from the spec: \<open>compose\<close> belongs to the transforms3d library. It builds the
  4x4 affine transform whose upper left block is the rotation times the diagonal zoom
  matrix and whose last column is the translation; the spec calls it the "rotation plus
  translation transform". The constant bottom row (0, 0, 0, 1) is left out.
\<close>

record affine =
  linear_part :: mat3
  translation_part :: vec3

definition compose :: "vec3 \<Rightarrow> mat3 \<Rightarrow> vec3 \<Rightarrow> affine" where
  "compose T R Z = \<lparr>linear_part = mat_mul R (diag3 Z), translation_part = T\<rparr>"

text \<open>
  \<open>trimesh.creation.box\<close> is a parameter \<open>creation_box\<close>; the dictionary
  \<open>{"v": box.vertices, "f": box.faces, "c": random_colors}\<close> is the pair of the mesh and
  the colours.
\<close>

definition extent :: real where
  "extent = 0.25"

definition box_plot_data :: "(real list \<Rightarrow> affine \<Rightarrow> 'm) \<Rightarrow> 'c \<Rightarrow> affine \<Rightarrow> 'm \<times> 'c" where
  "box_plot_data creation_box random_colors transform =
     (creation_box [extent, extent, extent] transform, random_colors)"

section \<open>The rotation setting\<close>

text \<open>
  Both scenes start with
  \<^verbatim>\<open>
    if use_random_rotation: rotation = R.random() ... else: rotation = np.eye(3)
  \<close>
  The random source is a generator state \<open>g\<close> with the sampling function \<open>R_random\<close>,
  which returns the sampled rotation and the next state.
\<close>

definition rotation_setting :: "bool \<Rightarrow> ('g \<Rightarrow> mat3 \<times> 'g) \<Rightarrow> 'g \<Rightarrow> mat3 \<times> 'g" where
  "rotation_setting use_random_rotation R_random g =
     (if use_random_rotation then R_random g else (eye3, g))"

section \<open>The egocentric scene\<close>

text \<open>
  \<^verbatim>\<open>
    for i in [-2, -1, 0, 1, 2]:
        translation = np.array([i, 0, -1])
        transform = compose(translation, rotation, np.ones((3,)))
        box = trimesh.creation.box(extents=[extent]*3, transform=transform)
        egocentric_boxes.append({...})
  \<close>
\<close>

definition egocentric_positions :: "vec3 list" where
  "egocentric_positions = map (\<lambda>i. (i, 0, - 1)) [- 2, - 1, 0, 1, 2]"

definition egocentric_transforms :: "mat3 \<Rightarrow> vec3 list \<Rightarrow> affine list" where
  "egocentric_transforms rotation positions =
     map (\<lambda>translation. compose translation rotation ones3) positions"

definition egocentric_boxes ::
  "(real list \<Rightarrow> affine \<Rightarrow> 'm) \<Rightarrow> 'c \<Rightarrow> mat3 \<Rightarrow> vec3 list \<Rightarrow> ('m \<times> 'c) list" where
  "egocentric_boxes creation_box random_colors rotation positions =
     map (box_plot_data creation_box random_colors) (egocentric_transforms rotation positions)"

definition egocentric_scene ::
  "(real list \<Rightarrow> affine \<Rightarrow> 'm) \<Rightarrow> 'c \<Rightarrow> bool \<Rightarrow> ('g \<Rightarrow> mat3 \<times> 'g) \<Rightarrow> 'g \<Rightarrow> ('m \<times> 'c) list \<times> 'g" where
  "egocentric_scene creation_box random_colors use_random_rotation R_random g =
     (case rotation_setting use_random_rotation R_random g of
        (rotation, g') \<Rightarrow>
          (egocentric_boxes creation_box random_colors rotation egocentric_positions, g'))"

section \<open>The allocentric scene\<close>

text \<open>
  \<^verbatim>\<open>
    length = 2
    eps = 0.1
    angle = np.pi * np.linspace(-1 + eps, 0 - eps, 5)
    x = np.cos(angle) * length
    y = np.zeros_like(x)
    z = np.sin(angle) * length
    object_centers = np.stack((x, y, z)).T
  \<close>
  \<open>np.linspace(start, stop, num)\<close> returns \<open>num\<close> evenly spaced samples from
  \<open>start\<close> to \<open>stop\<close>, both included.
\<close>

definition linspace :: "real \<Rightarrow> real \<Rightarrow> nat \<Rightarrow> real list" where
  "linspace start stop num =
     map (\<lambda>i. start + real i * ((stop - start) / real (num - 1))) [0..<num]"

definition length_r :: real where
  "length_r = 2"

definition eps :: real where
  "eps = 0.1"

definition angle :: "real list" where
  "angle = map (\<lambda>t. pi * t) (linspace (- 1 + eps) (0 - eps) 5)"

definition object_centers :: "vec3 list" where
  "object_centers = map (\<lambda>a. (cos a * length_r, 0, sin a * length_r)) angle"

text \<open>
  \<^verbatim>\<open>
    for i in range(5):
        principal_axis = np.array([0, 0, 1]).reshape(-1, 3)
        look_at = object_centers[i, ...]
        R_pa_align, _ = R.align_vectors(look_at.reshape(-1, 3), principal_axis)
        R_egocentric = R_pa_align * R_allocentric
        transform = compose(look_at, R_egocentric.as_matrix(), np.ones((3,)))
        box = trimesh.creation.box(extents=[extent]*3, transform=transform)
        allocentric_boxes.append(box_plot_data)
  \<close>
  The loop stops at the first exception.
\<close>

fun allocentric_transforms ::
  "(vec3 \<Rightarrow> vec3 \<Rightarrow> error + mat3) \<Rightarrow> mat3 \<Rightarrow> vec3 list \<Rightarrow> error + affine list" where
  "allocentric_transforms align R_allocentric [] = Inr []"
| "allocentric_transforms align R_allocentric (look_at # rest) =
     (case R_egocentric align look_at principal_axis R_allocentric of
        Inl e \<Rightarrow> Inl e
      | Inr R_ego \<Rightarrow>
          (case allocentric_transforms align R_allocentric rest of
             Inl e \<Rightarrow> Inl e
           | Inr ts \<Rightarrow> Inr (compose look_at R_ego ones3 # ts)))"

definition allocentric_boxes ::
  "(vec3 \<Rightarrow> vec3 \<Rightarrow> error + mat3) \<Rightarrow> (real list \<Rightarrow> affine \<Rightarrow> 'm) \<Rightarrow> 'c \<Rightarrow> mat3 \<Rightarrow> vec3 list
     \<Rightarrow> error + ('m \<times> 'c) list" where
  "allocentric_boxes align creation_box random_colors R_allocentric centers =
     (case allocentric_transforms align R_allocentric centers of
        Inl e \<Rightarrow> Inl e
      | Inr ts \<Rightarrow> Inr (map (box_plot_data creation_box random_colors) ts))"

definition allocentric_scene ::
  "(vec3 \<Rightarrow> vec3 \<Rightarrow> error + mat3) \<Rightarrow> (real list \<Rightarrow> affine \<Rightarrow> 'm) \<Rightarrow> 'c \<Rightarrow> bool
     \<Rightarrow> ('g \<Rightarrow> mat3 \<times> 'g) \<Rightarrow> 'g \<Rightarrow> (error + ('m \<times> 'c) list) \<times> 'g" where
  "allocentric_scene align creation_box random_colors use_random_rotation R_random g =
     (case rotation_setting use_random_rotation R_random g of
        (R_allocentric, g') \<Rightarrow>
          (allocentric_boxes align creation_box random_colors R_allocentric object_centers, g'))"

section \<open>The renderer\<close>

text \<open>
  \<open>visualize3d\<close> passes configuration dictionaries to meshplot. A dictionary is a map from
  keys to values of some type \<open>'v\<close>; the attributes \<open>vertices\<close> and \<open>faces\<close> of a mesh and
  \<open>as_boxes\<close> of a voxel grid are parameters. The plot handle \<open>ploot\<close> is \<open>None\<close> or the
  sequence of meshplot calls made on it so far, and \<open>to_html\<close> is a parameter.
\<close>

datatype 'c call = Plot 'c | Add_points 'c | Add_mesh 'c | Add_lines 'c

text \<open>
  \<^verbatim>\<open>
    if 'mesh' in m.keys():
        m['v'] = m['mesh'].vertices
        m['f'] = m['mesh'].faces
        del m['mesh']
    elif 'voxel' in m.keys():
        m['v'] = m['voxel'].as_boxes().vertices
        m['f'] = m['voxel'].as_boxes().faces
        del m['voxel']
  \<close>
\<close>

definition mesh_config ::
  "('v \<Rightarrow> 'v) \<Rightarrow> ('v \<Rightarrow> 'v) \<Rightarrow> ('v \<Rightarrow> 'v) \<Rightarrow> (string \<rightharpoonup> 'v) \<Rightarrow> (string \<rightharpoonup> 'v)" where
  "mesh_config vertices faces as_boxes m =
     (case m ''mesh'' of
        Some mesh \<Rightarrow> (m(''v'' \<mapsto> vertices mesh, ''f'' \<mapsto> faces mesh))(''mesh'' := None)
      | None \<Rightarrow>
          (case m ''voxel'' of
             Some voxel \<Rightarrow>
               (m(''v'' \<mapsto> vertices (as_boxes voxel), ''f'' \<mapsto> faces (as_boxes voxel)))
                 (''voxel'' := None)
           | None \<Rightarrow> m))"

text \<open>
  One of the three loops:
  \<^verbatim>\<open>
    for p in points:
        if ploot is None:
            ploot = mp.plot(**p)
        else:
            ploot.add_points(**p)
  \<close>
\<close>

fun draw :: "('c \<Rightarrow> 'c call) \<Rightarrow> 'c call list option \<Rightarrow> 'c list \<Rightarrow> 'c call list option" where
  "draw add ploot [] = ploot"
| "draw add ploot (p # ps) =
     draw add (case ploot of None \<Rightarrow> Some [Plot p] | Some calls \<Rightarrow> Some (calls @ [add p])) ps"

definition or_empty :: "'a list option \<Rightarrow> 'a list" where
  "or_empty xs = (case xs of None \<Rightarrow> [] | Some ys \<Rightarrow> ys)"

definition visualize3d_ploot ::
  "('v \<Rightarrow> 'v) \<Rightarrow> ('v \<Rightarrow> 'v) \<Rightarrow> ('v \<Rightarrow> 'v) \<Rightarrow> (string \<rightharpoonup> 'v) list option
     \<Rightarrow> (string \<rightharpoonup> 'v) list option \<Rightarrow> (string \<rightharpoonup> 'v) list option
     \<Rightarrow> (string \<rightharpoonup> 'v) call list option" where
  "visualize3d_ploot vertices faces as_boxes points meshes lines =
     (let ploot = None;
          ploot = draw Add_points ploot (or_empty points);
          ploot = draw Add_mesh ploot (map (mesh_config vertices faces as_boxes) (or_empty meshes));
          ploot = draw Add_lines ploot (or_empty lines)
      in ploot)"

definition visualize3d ::
  "((string \<rightharpoonup> 'v) call list \<Rightarrow> 'h) \<Rightarrow> ('v \<Rightarrow> 'v) \<Rightarrow> ('v \<Rightarrow> 'v) \<Rightarrow> ('v \<Rightarrow> 'v)
     \<Rightarrow> (string \<rightharpoonup> 'v) list option \<Rightarrow> (string \<rightharpoonup> 'v) list option
     \<Rightarrow> (string \<rightharpoonup> 'v) list option \<Rightarrow> error + 'h" where
  "visualize3d to_html vertices faces as_boxes points meshes lines =
     (case visualize3d_ploot vertices faces as_boxes points meshes lines of
        None \<Rightarrow> Inl AttributeError
      | Some calls \<Rightarrow> Inr (to_html calls))"

section \<open>Matrix algebra\<close>

lemma mat3_exhaust:
  obtains a11 a12 a13 a21 a22 a23 a31 a32 a33 :: real
  where "A = ((a11, a12, a13), (a21, a22, a23), (a31, a32, a33))"
  by (cases A) auto

lemma mat_mul_eye3_right: "mat_mul A eye3 = A"
  by (cases A rule: mat3_exhaust) (simp add: eye3_def)

lemma mat_mul_eye3_left: "mat_mul eye3 A = A"
  by (cases A rule: mat3_exhaust) (simp add: eye3_def)

lemma mat_mul_assoc: "mat_mul (mat_mul A B) C = mat_mul A (mat_mul B C)"
  by (cases A rule: mat3_exhaust, cases B rule: mat3_exhaust, cases C rule: mat3_exhaust)
     (simp add: algebra_simps)

lemma mat_vec_mat_mul: "mat_vec (mat_mul A B) v = mat_vec A (mat_vec B v)"
  by (cases A rule: mat3_exhaust, cases B rule: mat3_exhaust, cases v)
     (auto simp add: algebra_simps)

lemma mat_mul_diag_ones: "mat_mul R (diag3 ones3) = R"
  by (cases R rule: mat3_exhaust) (simp add: ones3_def)

lemma compose_ones: "compose T R ones3 = \<lparr>linear_part = R, translation_part = T\<rparr>"
  by (simp add: compose_def mat_mul_diag_ones)

lemma recover_allocentric_mat_mul:
  assumes "is_rotation A"
  shows "recover_allocentric A (mat_mul A B) = B"
proof -
  have "mat_mul (transpose3 A) (mat_mul A B) = mat_mul (mat_mul (transpose3 A) A) B"
    by (simp add: mat_mul_assoc)
  also have "\<dots> = mat_mul eye3 B"
    using assms by (simp add: is_rotation_def)
  also have "\<dots> = B"
    by (rule mat_mul_eye3_left)
  finally show ?thesis
    by (simp add: recover_allocentric_def inv_rotation_def)
qed

section \<open>The conversion composes alignment after allocentric rotation\<close>

text \<open>
  C2. Whenever the alignment step returns a rotation for the target direction, the
  conversion returns the product alignment rotation times allocentric rotation, in that
  order: applied to any vector, the result first applies the allocentric rotation and
  then the alignment rotation.
\<close>

theorem conversion_composition_order:
  assumes "align look_at pa = Inr R_pa_align"
  shows "R_egocentric align look_at pa R_allocentric = Inr (mat_mul R_pa_align R_allocentric)
    \<and> mat_vec (mat_mul R_pa_align R_allocentric) v
        = mat_vec R_pa_align (mat_vec R_allocentric v)"
  using assms by (simp add: R_egocentric_def mat_vec_mat_mul)

text \<open>
  An instance with a quarter turn about z as alignment and a quarter turn about x as
  allocentric rotation; the product in the other order is a different matrix.
\<close>

theorem conversion_composition_order_witness:
  "(\<lambda>a b. Inr ((0, - 1, 0), (1, 0, 0), (0, 0, 1))) ((1, 0, 0) :: vec3) principal_axis
      = (Inr ((0, - 1, 0), (1, 0, 0), (0, 0, 1)) :: error + mat3)
   \<and> R_egocentric (\<lambda>a b. Inr ((0, - 1, 0), (1, 0, 0), (0, 0, 1))) (1, 0, 0) principal_axis
        ((1, 0, 0), (0, 0, - 1), (0, 1, 0))
      = Inr ((0, 0, 1), (1, 0, 0), (0, 1, 0))
   \<and> mat_mul ((1, 0, 0), (0, 0, - 1), (0, 1, 0)) ((0, - 1, 0), (1, 0, 0), (0, 0, 1))
      \<noteq> ((0, 0, 1), (1, 0, 0), (0, 1, 0))"
  using conversion_composition_order
    [of "\<lambda>a b. Inr ((0, - 1, 0), (1, 0, 0), (0, 0, 1))" "(1, 0, 0)" principal_axis
        "((0, - 1, 0), (1, 0, 0), (0, 0, 1))" "((1, 0, 0), (0, 0, - 1), (0, 1, 0))" "(0, 0, 0)"]
  by simp

section \<open>The egocentric scene\<close>

text \<open>
  C5. For every list of positions and every shared rotation, each transform built by the
  egocentric scene generator has that same rotation as its linear part, the translations
  are the input positions in order, and the i-th box returned is the box that
  \<open>creation_box\<close> builds with the extents \<open>[extent] * 3\<close> from exactly this rotation
  and the i-th position, paired with the colours.
\<close>

theorem egocentric_scene_contract:
  "map linear_part (egocentric_transforms rotation positions)
     = replicate (length positions) rotation
   \<and> map translation_part (egocentric_transforms rotation positions) = positions
   \<and> egocentric_boxes creation_box random_colors rotation positions
       = map (\<lambda>p. (creation_box [extent, extent, extent]
                      \<lparr>linear_part = rotation, translation_part = p\<rparr>,
                    random_colors))
           positions"
  by (simp add: egocentric_transforms_def egocentric_boxes_def box_plot_data_def compose_ones
      comp_def map_replicate_const)

section \<open>Recovering the allocentric rotation\<close>

text \<open>
  C1. Fix an allocentric rotation and a list of target directions for which the
  alignment step returns a rotation. Then for every target the conversion returns an
  egocentric rotation, and composing the inverse of that target's alignment rotation with
  it gives back the shared allocentric rotation.
\<close>

theorem roundtrip_recovers_allocentric:
  assumes "\<forall>t \<in> set targets. \<exists>A. align t principal_axis = Inr A \<and> is_rotation A"
  shows "\<forall>t \<in> set targets. \<exists>A E. align t principal_axis = Inr A
    \<and> R_egocentric align t principal_axis R_allocentric = Inr E
    \<and> recover_allocentric A E = R_allocentric"
proof
  fix t assume "t \<in> set targets"
  with assms obtain A where A: "align t principal_axis = Inr A" "is_rotation A"
    by blast
  have "R_egocentric align t principal_axis R_allocentric = Inr (mat_mul A R_allocentric)"
    using A(1) by (simp add: R_egocentric_def)
  moreover have "recover_allocentric A (mat_mul A R_allocentric) = R_allocentric"
    using A(2) by (rule recover_allocentric_mat_mul)
  ultimately show "\<exists>A E. align t principal_axis = Inr A
    \<and> R_egocentric align t principal_axis R_allocentric = Inr E
    \<and> recover_allocentric A E = R_allocentric"
    using A(1) by blast
qed

text \<open>
  An instance with two targets whose alignment rotations differ: a quarter turn about y
  for the target (1, 0, 0) and the identity for the target (0, 0, 1).
\<close>

theorem roundtrip_recovers_allocentric_witness:
  "is_rotation ((0, 0, 1), (0, 1, 0), (- 1, 0, 0)) \<and> is_rotation eye3
   \<and> (\<exists>A E.
      (\<lambda>a b. if a = ((1, 0, 0) :: vec3) then Inr ((0, 0, 1), (0, 1, 0), (- 1, 0, 0)) else Inr eye3)
        (1, 0, 0) principal_axis = (Inr A :: error + mat3)
      \<and> R_egocentric
          (\<lambda>a b. if a = ((1, 0, 0) :: vec3) then Inr ((0, 0, 1), (0, 1, 0), (- 1, 0, 0)) else Inr eye3)
          (1, 0, 0) principal_axis ((0, - 1, 0), (1, 0, 0), (0, 0, 1)) = Inr E
      \<and> recover_allocentric A E = ((0, - 1, 0), (1, 0, 0), (0, 0, 1)))
   \<and> (\<exists>A E.
      (\<lambda>a b. if a = ((1, 0, 0) :: vec3) then Inr ((0, 0, 1), (0, 1, 0), (- 1, 0, 0)) else Inr eye3)
        (0, 0, 1) principal_axis = (Inr A :: error + mat3)
      \<and> R_egocentric
          (\<lambda>a b. if a = ((1, 0, 0) :: vec3) then Inr ((0, 0, 1), (0, 1, 0), (- 1, 0, 0)) else Inr eye3)
          (0, 0, 1) principal_axis ((0, - 1, 0), (1, 0, 0), (0, 0, 1)) = Inr E
      \<and> recover_allocentric A E = ((0, - 1, 0), (1, 0, 0), (0, 0, 1)))"
proof -
  have r: "is_rotation ((0, 0, 1), (0, 1, 0), (- 1, 0, 0))" "is_rotation eye3"
    by (simp_all add: is_rotation_def eye3_def)
  then have h: "\<forall>t \<in> set [(1, 0, 0), (0, 0, 1)]. \<exists>A.
      (\<lambda>a b. if a = ((1, 0, 0) :: vec3) then Inr ((0, 0, 1), (0, 1, 0), (- 1, 0, 0)) else Inr eye3)
        t principal_axis = (Inr A :: error + mat3) \<and> is_rotation A"
    by (simp del: split_paired_Ex)
  have "\<forall>t \<in> set [(1, 0, 0), (0, 0, 1)]. \<exists>A E.
      (\<lambda>a b. if a = ((1, 0, 0) :: vec3) then Inr ((0, 0, 1), (0, 1, 0), (- 1, 0, 0)) else Inr eye3)
        t principal_axis = (Inr A :: error + mat3)
      \<and> R_egocentric
          (\<lambda>a b. if a = ((1, 0, 0) :: vec3) then Inr ((0, 0, 1), (0, 1, 0), (- 1, 0, 0)) else Inr eye3)
          t principal_axis ((0, - 1, 0), (1, 0, 0), (0, 0, 1)) = Inr E
      \<and> recover_allocentric A E = ((0, - 1, 0), (1, 0, 0), (0, 0, 1))"
    by (rule roundtrip_recovers_allocentric [OF h])
  then show ?thesis
    using r by (simp del: split_paired_Ex)
qed

section \<open>Determinism without random rotation\<close>

text \<open>
  C8. With \<open>use_random_rotation\<close> switched off, both scenes are built with the
  identity rotation, the random source is not consulted (the generator state is returned
  unchanged), and the boxes of two runs with any two random sources are equal. With the
  flag switched on, the boxes are a function of the sampled rotation alone.
\<close>

theorem flag_off_is_deterministic:
  "egocentric_scene creation_box random_colors False R_random g
     = (egocentric_boxes creation_box random_colors eye3 egocentric_positions, g)
   \<and> allocentric_scene align creation_box random_colors False R_random g
     = (allocentric_boxes align creation_box random_colors eye3 object_centers, g)
   \<and> fst (egocentric_scene creation_box random_colors False R_random g)
     = fst (egocentric_scene creation_box random_colors False R_random' g')
   \<and> fst (allocentric_scene align creation_box random_colors False R_random g)
     = fst (allocentric_scene align creation_box random_colors False R_random' g')
   \<and> egocentric_scene creation_box random_colors True R_random g
     = (egocentric_boxes creation_box random_colors (fst (R_random g)) egocentric_positions,
        snd (R_random g))
   \<and> allocentric_scene align creation_box random_colors True R_random g
     = (allocentric_boxes align creation_box random_colors (fst (R_random g)) object_centers,
        snd (R_random g))"
  by (simp add: egocentric_scene_def allocentric_scene_def rotation_setting_def
      split: prod.split)

section \<open>The renderer needs something to draw\<close>

lemma draw_None_iff: "draw add ploot ps = None \<longleftrightarrow> ploot = None \<and> ps = []"
  by (induction ps arbitrary: ploot) (auto split: option.splits)

lemma visualize3d_ploot_None_iff:
  "visualize3d_ploot vertices faces as_boxes points meshes lines = None
     \<longleftrightarrow> or_empty points = [] \<and> or_empty meshes = [] \<and> or_empty lines = []"
  by (auto simp add: visualize3d_ploot_def Let_def draw_None_iff)

text \<open>
  C9. The plot handle of \<open>visualize3d\<close> is still \<open>None\<close> after the three loops exactly
  when points, meshes and lines are all \<open>None\<close> or empty; exactly then the final
  \<open>to_html\<close> call fails with an attribute error, and otherwise HTML is returned.
\<close>

theorem visualize3d_needs_an_item:
  "(visualize3d_ploot vertices faces as_boxes points meshes lines = None
      \<longleftrightarrow> or_empty points = [] \<and> or_empty meshes = [] \<and> or_empty lines = [])
   \<and> (visualize3d to_html vertices faces as_boxes points meshes lines = Inl AttributeError
      \<longleftrightarrow> or_empty points = [] \<and> or_empty meshes = [] \<and> or_empty lines = [])
   \<and> ((\<exists>html. visualize3d to_html vertices faces as_boxes points meshes lines = Inr html)
      \<longleftrightarrow> \<not> (or_empty points = [] \<and> or_empty meshes = [] \<and> or_empty lines = []))"
  using visualize3d_ploot_None_iff [of vertices faces as_boxes points meshes lines]
  by (auto simp add: visualize3d_def split: option.splits)

text \<open>An empty call fails; a call with one mesh makes one meshplot call and returns.\<close>

theorem visualize3d_needs_an_item_witness:
  "visualize3d (\<lambda>calls. length calls) id id id None
       (Some [] :: (string \<rightharpoonup> nat) list option) None = Inl AttributeError
   \<and> visualize3d_ploot id id id None
       (Some [] :: (string \<rightharpoonup> nat) list option) None = None
   \<and> visualize3d (\<lambda>calls. length calls) id id id None (Some [[''mesh'' \<mapsto> (7::nat)]]) None
       = Inr 1"
proof -
  have "visualize3d (\<lambda>calls. length calls) id id id None (Some [[''mesh'' \<mapsto> (7::nat)]]) None
       = Inr 1"
    by (simp add: visualize3d_def visualize3d_ploot_def or_empty_def mesh_config_def)
  then show ?thesis
    using visualize3d_needs_an_item
      [of id id id None "Some []" "None :: (string \<rightharpoonup> nat) list option" "\<lambda>calls. length calls"]
    by (simp add: or_empty_def)
qed

section \<open>The alignment rotation of the spec\<close>

text \<open>
  Unit vectors, the half turn and the minimal rotation: the facts behind the alignment
  described by the spec.
\<close>

lemma vec3_exhaust:
  obtains x y z :: real where "v = (x, y, z)"
  by (cases v) auto

lemma dot_zero_iff: "dot v v = 0 \<longleftrightarrow> v = (0, 0, 0)"
proof (cases v rule: vec3_exhaust)
  case (1 x y z)
  have "x * x + y * y + z * z = 0 \<longleftrightarrow> x = 0 \<and> y = 0 \<and> z = 0"
    using sum_power2_eq_zero_iff [of "x" "y"] sum_power2_eq_zero_iff [of "sqrt (x\<^sup>2 + y\<^sup>2)" z]
    by (auto simp add: power2_eq_square add_nonneg_eq_0_iff)
  then show ?thesis by (simp add: 1)
qed

lemma dot_nonneg: "0 \<le> dot v v"
  by (cases v rule: vec3_exhaust) simp

lemma dot_scale_scale: "dot (scale k v) (scale k v) = k * k * dot v v"
  by (cases v rule: vec3_exhaust) (simp add: algebra_simps)

lemma unit_vector_unit:
  assumes "v \<noteq> (0, 0, 0)"
  shows "dot (unit_vector v) (unit_vector v) = 1"
proof -
  have pos: "0 < dot v v"
    using assms dot_nonneg [of v] dot_zero_iff [of v] by (simp add: less_le)
  have "sqrt (dot v v) * sqrt (dot v v) = dot v v"
    using pos by simp
  then have "(1 / norm3 v) * (1 / norm3 v) * dot v v = 1"
    using pos by (simp add: norm3_def)
  then show ?thesis
    by (simp only: unit_vector_def dot_scale_scale)
qed

lemma minimal_rotation_maps:
  assumes "dot u u = 1"
  shows "mat_vec (minimal_rotation u v) u = v"
proof (cases u rule: vec3_exhaust)
  case u: (1 u1 u2 u3)
  obtain v1 v2 v3 where v: "v = (v1, v2, v3)" by (cases v rule: vec3_exhaust)
  have one: "u1 * u1 + u2 * u2 + u3 * u3 = 1"
    using assms by (simp add: u)
  define k where "k = 1 / (1 + dot u v)"
  have "mat_vec (minimal_rotation u v) u =
    (v1 * (u1 * u1 + u2 * u2 + u3 * u3), v2 * (u1 * u1 + u2 * u2 + u3 * u3),
     v3 * (u1 * u1 + u2 * u2 + u3 * u3))"
    unfolding minimal_rotation_def Let_def k_def [symmetric]
    by (simp add: u v algebra_simps)
  then show ?thesis
    by (simp only: one mult_1_right v)
qed

lemma dot_perpendicular: "dot (perpendicular u) u = 0"
proof (cases u rule: vec3_exhaust)
  case (1 u1 u2 u3)
  show ?thesis
    by (simp add: 1 perpendicular_def unit_vector_def algebra_simps)
qed

lemma perpendicular_unit: "dot (perpendicular u) (perpendicular u) = 1"
proof (cases u rule: vec3_exhaust)
  case (1 u1 u2 u3)
  show ?thesis
  proof (cases "u1 = 0 \<and> u2 = 0")
    case True
    then show ?thesis by (simp add: 1 perpendicular_def)
  next
    case False
    then have "(u2, - u1, 0) \<noteq> ((0, 0, 0) :: vec3)" by auto
    then have "dot (unit_vector (u2, - u1, 0)) (unit_vector (u2, - u1, 0)) = 1"
      by (rule unit_vector_unit)
    with False show ?thesis by (simp add: 1 perpendicular_def)
  qed
qed

lemma half_turn_flips:
  assumes "dot p u = 0"
  shows "mat_vec (half_turn p) u = scale (- 1) u"
proof (cases u rule: vec3_exhaust)
  case u: (1 u1 u2 u3)
  obtain p1 p2 p3 where p: "p = (p1, p2, p3)" by (cases p rule: vec3_exhaust)
  have zero: "p1 * u1 + p2 * u2 + p3 * u3 = 0"
    using assms by (simp add: u p)
  have "mat_vec (half_turn p) u =
    (2 * p1 * (p1 * u1 + p2 * u2 + p3 * u3) - u1,
     2 * p2 * (p1 * u1 + p2 * u2 + p3 * u3) - u2,
     2 * p3 * (p1 * u1 + p2 * u2 + p3 * u3) - u3)"
    by (simp add: half_turn_def u p algebra_simps)
  then show ?thesis
    by (simp only: zero u) simp
qed

lemma half_turn_is_rotation:
  assumes "dot p p = 1"
  shows "is_rotation (half_turn p)"
proof -
  obtain p1 p2 p3 where p: "p = (p1, p2, p3)" by (cases p rule: vec3_exhaust)
  define s where "s = p1 * p1 + p2 * p2 + p3 * p3"
  have s: "s = 1" using assms by (simp add: p s_def)
  have "mat_mul (transpose3 (half_turn p)) (half_turn p) =
    ((1 + 4 * (s - 1) * (p1 * p1), 4 * (s - 1) * (p1 * p2), 4 * (s - 1) * (p1 * p3)),
     (4 * (s - 1) * (p2 * p1), 1 + 4 * (s - 1) * (p2 * p2), 4 * (s - 1) * (p2 * p3)),
     (4 * (s - 1) * (p3 * p1), 4 * (s - 1) * (p3 * p2), 1 + 4 * (s - 1) * (p3 * p3)))"
    by (simp add: half_turn_def p s_def algebra_simps)
  then have orth: "mat_mul (transpose3 (half_turn p)) (half_turn p) = eye3"
    by (simp add: s eye3_def)
  have "det3 (half_turn p) = 2 * s - 1"
    by (simp add: half_turn_def p s_def algebra_simps)
  then have "det3 (half_turn p) = 1"
    by (simp add: s)
  with orth show ?thesis
    by (simp add: is_rotation_def)
qed

lemma not_anti_parallel:
  assumes "dot u u = 1" "dot v v = 1" "v \<noteq> scale (- 1) u"
  shows "1 + dot u v \<noteq> 0"
proof
  assume c: "1 + dot u v = 0"
  obtain u1 u2 u3 where u: "u = (u1, u2, u3)" by (cases u rule: vec3_exhaust)
  obtain v1 v2 v3 where v: "v = (v1, v2, v3)" by (cases v rule: vec3_exhaust)
  have "dot (u1 + v1, u2 + v2, u3 + v3) (u1 + v1, u2 + v2, u3 + v3)
      = dot u u + dot v v + 2 * dot u v"
    by (simp add: u v algebra_simps)
  also have "\<dots> = 0"
    using assms(1,2) c by simp
  finally have "(u1 + v1, u2 + v2, u3 + v3) = (0, 0, 0)"
    by (simp only: dot_zero_iff)
  then have "v = scale (- 1) u"
    by (simp add: u v add_eq_0_iff)
  with assms(3) show False by contradiction
qed

lemma lagrange_identity:
  "dot (cross u v) (cross u v) = dot u u * dot v v - dot u v * dot u v"
  by (cases u rule: vec3_exhaust, cases v rule: vec3_exhaust) (simp add: algebra_simps)

lemma rodrigues_orthogonal:
  fixes c k w1 w2 w3 :: real
  defines "s \<equiv> w1 * w1 + w2 * w2 + w3 * w3"
  defines "R \<equiv> ((c + k * w1 * w1, k * w1 * w2 - w3, k * w1 * w3 + w2),
         (k * w2 * w1 + w3, c + k * w2 * w2, k * w2 * w3 - w1),
         (k * w3 * w1 - w2, k * w3 * w2 + w1, c + k * w3 * w3))"
  defines "d \<equiv> 2 * c * k + k * k * s - 1"
  shows "mat_mul (transpose3 R) R =
    ((c * c + s + d * (w1 * w1), d * (w1 * w2), d * (w1 * w3)),
     (d * (w2 * w1), c * c + s + d * (w2 * w2), d * (w2 * w3)),
     (d * (w3 * w1), d * (w3 * w2), c * c + s + d * (w3 * w3)))"
  unfolding R_def d_def s_def by (simp add: algebra_simps)

lemma rodrigues_det:
  fixes c k w1 w2 w3 :: real
  defines "s \<equiv> w1 * w1 + w2 * w2 + w3 * w3"
  defines "R \<equiv> ((c + k * w1 * w1, k * w1 * w2 - w3, k * w1 * w3 + w2),
         (k * w2 * w1 + w3, c + k * w2 * w2, k * w2 * w3 - w1),
         (k * w3 * w1 - w2, k * w3 * w2 + w1, c + k * w3 * w3))"
  shows "det3 R = (c + k * s) * (c * c + s)"
  unfolding R_def s_def by (simp add: algebra_simps)

lemma minimal_rotation_is_rotation:
  assumes "dot u u = 1" "dot v v = 1" "v \<noteq> scale (- 1) u"
  shows "is_rotation (minimal_rotation u v)"
proof -
  obtain w1 w2 w3 where w: "cross u v = (w1, w2, w3)" by (cases "cross u v" rule: vec3_exhaust)
  define c where "c = dot u v"
  define k where "k = 1 / (1 + c)"
  define s where "s = w1 * w1 + w2 * w2 + w3 * w3"
  define d where "d = 2 * c * k + k * k * s - 1"
  have nz: "1 + c \<noteq> 0"
    unfolding c_def using assms by (rule not_anti_parallel)
  have k: "k * (1 + c) = 1"
    using nz by (simp add: k_def)
  have "s = dot (cross u v) (cross u v)"
    by (simp add: w s_def)
  then have s: "s = (1 - c) * (1 + c)"
    by (simp add: lagrange_identity assms c_def algebra_simps)
  have ks: "k * s = 1 - c"
  proof -
    have "k * s = (k * (1 + c)) * (1 - c)" by (simp add: s)
    then show ?thesis by (simp add: k)
  qed
  have cs: "c * c + s = 1"
    by (simp add: s algebra_simps)
  have "d = 2 * c * k + k * (k * s) - 1"
    by (simp add: d_def)
  also have "\<dots> = k * (1 + c) - 1"
    by (simp add: ks algebra_simps)
  finally have d: "d = 0"
    by (simp add: k)
  have R: "minimal_rotation u v =
      ((c + k * w1 * w1, k * w1 * w2 - w3, k * w1 * w3 + w2),
       (k * w2 * w1 + w3, c + k * w2 * w2, k * w2 * w3 - w1),
       (k * w3 * w1 - w2, k * w3 * w2 + w1, c + k * w3 * w3))"
    by (simp add: minimal_rotation_def Let_def w c_def k_def)
  have "mat_mul (transpose3 (minimal_rotation u v)) (minimal_rotation u v) =
    ((c * c + s + d * (w1 * w1), d * (w1 * w2), d * (w1 * w3)),
     (d * (w2 * w1), c * c + s + d * (w2 * w2), d * (w2 * w3)),
     (d * (w3 * w1), d * (w3 * w2), c * c + s + d * (w3 * w3)))"
    unfolding R d_def s_def by (rule rodrigues_orthogonal)
  then have orth: "mat_mul (transpose3 (minimal_rotation u v)) (minimal_rotation u v) = eye3"
    by (simp add: d cs eye3_def)
  have "det3 (minimal_rotation u v) = (c + k * s) * (c * c + s)"
    unfolding R s_def by (rule rodrigues_det)
  then have "det3 (minimal_rotation u v) = 1"
    by (simp add: ks cs)
  with orth show ?thesis
    by (simp add: is_rotation_def)
qed

text \<open>
  C3. For a non-zero target direction and a non-zero principal axis the alignment step
  returns a rotation matrix that maps the normalised principal axis onto the normalised
  target direction; the dot product of the rotated axis and the normalised target is 1.
\<close>

theorem alignment_maps_axis_onto_target:
  assumes "target_direction \<noteq> (0, 0, 0)" and "pa \<noteq> (0, 0, 0)"
  shows "\<exists>R_pa_align. align_vectors target_direction pa = Inr R_pa_align
    \<and> is_rotation R_pa_align
    \<and> mat_vec R_pa_align (unit_vector pa) = unit_vector target_direction
    \<and> dot (mat_vec R_pa_align (unit_vector pa)) (unit_vector target_direction) = 1"
proof -
  define u where "u = unit_vector pa"
  define v where "v = unit_vector target_direction"
  have uu: "dot u u = 1" and vv: "dot v v = 1"
    using assms by (simp_all add: u_def v_def unit_vector_unit)
  show ?thesis
  proof (cases "v = scale (- 1) u")
    case True
    have "align_vectors target_direction pa = Inr (half_turn (perpendicular u))"
      using assms True by (simp add: align_vectors_def u_def v_def)
    moreover have "is_rotation (half_turn (perpendicular u))"
      by (simp add: half_turn_is_rotation perpendicular_unit)
    moreover have "mat_vec (half_turn (perpendicular u)) u = v"
      by (simp add: half_turn_flips dot_perpendicular True)
    ultimately show ?thesis
      using vv by (simp add: u_def v_def)
  next
    case False
    have "align_vectors target_direction pa = Inr (minimal_rotation u v)"
      using assms False by (simp add: align_vectors_def u_def v_def)
    moreover have "is_rotation (minimal_rotation u v)"
      using uu vv False by (rule minimal_rotation_is_rotation)
    moreover have "mat_vec (minimal_rotation u v) u = v"
      using uu by (rule minimal_rotation_maps)
    ultimately show ?thesis
      using vv by (simp add: u_def v_def)
  qed
qed

text \<open>The target (-1, 0, 0) with the principal axis (0, 0, 1) of the notebook.\<close>

theorem alignment_maps_axis_onto_target_witness:
  "(- 1, 0, 0) \<noteq> ((0, 0, 0) :: vec3) \<and> principal_axis \<noteq> (0, 0, 0)
   \<and> (\<exists>R_pa_align. align_vectors (- 1, 0, 0) principal_axis = Inr R_pa_align
      \<and> is_rotation R_pa_align
      \<and> mat_vec R_pa_align (unit_vector principal_axis) = unit_vector (- 1, 0, 0)
      \<and> dot (mat_vec R_pa_align (unit_vector principal_axis)) (unit_vector (- 1, 0, 0)) = 1)"
  using alignment_maps_axis_onto_target [of "(- 1, 0, 0)" principal_axis]
  by (simp add: principal_axis_def)

text \<open>
  C4. When the target direction or the principal axis is the zero vector, the alignment
  step fails with the invalid-input error and so does the conversion; neither returns a
  matrix.
\<close>

theorem zero_vector_is_invalid_input:
  assumes "target_direction = (0, 0, 0) \<or> pa = (0, 0, 0)"
  shows "align_vectors target_direction pa = Inl InvalidInput
    \<and> R_egocentric align_vectors target_direction pa R_allocentric = Inl InvalidInput
    \<and> (\<forall>R. align_vectors target_direction pa \<noteq> Inr R)
    \<and> (\<forall>R. R_egocentric align_vectors target_direction pa R_allocentric \<noteq> Inr R)"
  using assms by (auto simp add: align_vectors_def R_egocentric_def)

text \<open>The zero target with the principal axis of the notebook.\<close>

theorem zero_vector_is_invalid_input_witness:
  "((0, 0, 0) = ((0, 0, 0) :: vec3) \<or> principal_axis = (0, 0, 0))
   \<and> align_vectors (0, 0, 0) principal_axis = Inl InvalidInput
   \<and> R_egocentric align_vectors (0, 0, 0) principal_axis eye3 = Inl InvalidInput"
  using zero_vector_is_invalid_input [of "(0, 0, 0)" principal_axis eye3]
  by simp

text \<open>
  C7. For the target (0, 0, 1), the principal axis (0, 0, 1) and the identity as
  allocentric rotation, the alignment rotation is the identity and so is the egocentric
  rotation.
\<close>

theorem aligned_scenario:
  "align_vectors (0, 0, 1) (0, 0, 1) = Inr eye3
   \<and> R_egocentric align_vectors (0, 0, 1) (0, 0, 1) eye3 = Inr eye3"
proof -
  have n: "unit_vector (0, 0, 1) = (0, 0, 1)"
    by (simp add: unit_vector_def norm3_def)
  have "align_vectors (0, 0, 1) (0, 0, 1) = Inr eye3"
    by (simp add: align_vectors_def n minimal_rotation_def eye3_def)
  then show ?thesis
    by (simp add: R_egocentric_def mat_mul_eye3_right)
qed

end
